theory Spec2Isabelle
  imports Main "HOL-Library.Word" "HOL-Library.List_Lexorder"
begin

section \<open>JavaScript strings\<close>

text \<open>
  A JavaScript string is a sequence of 16-bit code units. The default comparator of
  \<^verbatim>\<open>Array.prototype.sort\<close> orders strings code unit by code unit, a proper prefix
  first: that is the lexicographic order of lists over the unsigned order of words.
  \<open>js\<close> writes an ASCII literal; the non-ASCII literals of \<^verbatim>\<open>app.js\<close> are given
  by their code units.
\<close>

type_synonym jsstring = "16 word list"

definition js :: "string \<Rightarrow> jsstring" where
  "js s = map (\<lambda>c. of_nat (of_char c)) s"

definition OPEN_SHIFT :: jsstring where
  \<comment> \<open>line 154: the row key of shifts without employee, "(A\c{c}{\i}k shift)"\<close>
  "OPEN_SHIFT = [0x28, 0x41, 0xE7, 0x131, 0x6B, 0x20, 0x73, 0x68, 0x69, 0x66, 0x74, 0x29]"

definition NO_SHIFTS :: jsstring where
  \<comment> \<open>line 146: "Bu hafta i\c{c}in kay{\i}tl{\i} vardiya yok."\<close>
  "NO_SHIFTS = js ''Bu hafta i'' @ [0xE7] @ js ''in kay'' @ [0x131] @ js ''tl'' @ [0x131]
     @ js '' vardiya yok.''"

definition EMPLOYEE_HEADER :: jsstring where
  \<comment> \<open>line 169: the first header cell, "\c{C}al{\i}\c{s}an"\<close>
  "EMPLOYEE_HEADER = [0xC7, 0x61, 0x6C, 0x131, 0x15F, 0x61, 0x6E]"

section \<open>Shift records as delivered by the server\<close>

text \<open>
  The \<^verbatim>\<open>employee\<close> field of a shift is whatever the JSON response holds there.
  Line 154 tests it for truthiness and reads \<^verbatim>\<open>full_name\<close> from a truthy value.
  \<open>Embedded n\<close> is an object (or array); \<open>n\<close> is its \<^verbatim>\<open>full_name\<close> property,
  a string when present. Numbers are the integer-valued ones.
\<close>

datatype employee_value =
    Undefined
  | Null
  | Boolean bool
  | Number int
  | Text jsstring
  | Embedded "jsstring option"

record shift =
  date :: jsstring
  start_time :: jsstring
  end_time :: jsstring
  position :: jsstring
  employee :: employee_value

fun truthy :: "employee_value \<Rightarrow> bool" where
  "truthy Undefined = False"
| "truthy Null = False"
| "truthy (Boolean b) = b"
| "truthy (Number n) = (n \<noteq> 0)"
| "truthy (Text t) = (t \<noteq> [])"
| "truthy (Embedded n) = True"

fun full_name_key :: "employee_value \<Rightarrow> jsstring" where
  \<comment> \<open>\<^verbatim>\<open>e.full_name\<close> used as a property key: a missing property is \<^verbatim>\<open>undefined\<close>,
      which as a key is the string "undefined"\<close>
  "full_name_key (Embedded (Some n)) = n"
| "full_name_key e = js ''undefined''"

definition empName :: "shift \<Rightarrow> jsstring" where
  \<comment> \<open>line 154\<close>
  "empName s = (if truthy (employee s) then full_name_key (employee s) else OPEN_SHIFT)"

section \<open>Plain objects used as dictionaries\<close>

text \<open>
  \<^verbatim>\<open>byEmployee\<close> and the per-employee objects are created by \<^verbatim>\<open>{}\<close>, so they
  inherit from \<^verbatim>\<open>Object.prototype\<close>. An object is modelled by its own properties in
  the order of their creation. Reading \<^verbatim>\<open>obj[k]\<close> finds an own property first and
  then the properties every plain object inherits; those are the functions (and, under
  \<^verbatim>\<open>__proto__\<close>, the prototype object) that ECMAScript and its Annex B put on
  \<^verbatim>\<open>Object.prototype\<close>, all of them truthy. \<^verbatim>\<open>Object.prototype\<close> is taken as the
  engine provides it when the page is loaded: \<^verbatim>\<open>app.js\<close> is the only script at work.
\<close>

type_synonym 'v jsobject = "(jsstring \<times> 'v) list"

definition object_prototype_names :: "jsstring list" where
  "object_prototype_names = map js
     [''constructor'', ''hasOwnProperty'', ''isPrototypeOf'', ''propertyIsEnumerable'',
      ''toLocaleString'', ''toString'', ''valueOf'', ''__proto__'',
      ''__defineGetter__'', ''__defineSetter__'', ''__lookupGetter__'', ''__lookupSetter__'']"

definition inherited :: "jsstring \<Rightarrow> bool" where
  "inherited k = (k \<in> set object_prototype_names)"

datatype 'v property = Own 'v | Inherited | Missing

definition get_prop :: "'v jsobject \<Rightarrow> jsstring \<Rightarrow> 'v property" where
  "get_prop obj k =
     (case map_of obj k of
        Some v \<Rightarrow> Own v
      | None \<Rightarrow> if inherited k then Inherited else Missing)"

fun set_prop :: "'v jsobject \<Rightarrow> jsstring \<Rightarrow> 'v \<Rightarrow> 'v jsobject" where
  \<comment> \<open>\<^verbatim>\<open>obj[k] = v\<close>: an existing own property keeps its place, a new one is created last\<close>
  "set_prop [] k v = [(k, v)]"
| "set_prop ((k', v') # obj) k v =
     (if k' = k then (k, v) # obj else (k', v') # set_prop obj k v)"

text \<open>
  \<^verbatim>\<open>Object.entries\<close> lists the own properties whose key is an array index (a canonical
  decimal numeral up to \<open>2^32 - 2\<close>) first, in ascending numeric order, and then the others
  in the order of their creation.
\<close>

definition digit :: "16 word \<Rightarrow> bool" where
  "digit c = (0x30 \<le> c \<and> c \<le> 0x39)"

definition digits_value :: "jsstring \<Rightarrow> int" where
  "digits_value k = foldl (\<lambda>n c. 10 * n + (uint c - 48)) 0 k"

definition array_index :: "jsstring \<Rightarrow> bool" where
  "array_index k =
     (k \<noteq> [] \<and> list_all digit k \<and> (length k = 1 \<or> hd k \<noteq> 0x30)
      \<and> digits_value k \<le> 4294967294)"

definition object_entries :: "'v jsobject \<Rightarrow> (jsstring \<times> 'v) list" where
  "object_entries obj =
     sort_key (\<lambda>e. digits_value (fst e)) (filter (\<lambda>e. array_index (fst e)) obj)
     @ filter (\<lambda>e. \<not> array_index (fst e)) obj"

section \<open>The grouping of \<^verbatim>\<open>renderWeekTable\<close> (lines 150 to 161)\<close>

text \<open>
  The \<^verbatim>\<open>forEach\<close> of line 153 is a recursion over the list that carries
  \<^verbatim>\<open>byEmployee\<close> and \<^verbatim>\<open>datesSet\<close>. It ends early in two ways.
  \<open>TypeError\<close> is the exception of line 157 when \<^verbatim>\<open>.push\<close> is not a function.
  \<open>Untracked\<close> marks a run the model does not follow further: one that assigns a
  property to \<^verbatim>\<open>Object.prototype\<close> itself (every object of the page inherits it from
  then on), or to a built-in function under a name that the engine may already define on
  it. Whatever the model states about a run that returns holds of the code.
\<close>

datatype halt = TypeError | Untracked

record aggregation =
  byEmployee :: "shift list jsobject jsobject"
  datesSet :: "jsstring list"

definition set_add :: "jsstring list \<Rightarrow> jsstring \<Rightarrow> jsstring list" where
  \<comment> \<open>\<^verbatim>\<open>Set.prototype.add\<close>: a set keeps its elements in insertion order\<close>
  "set_add ds d = (if d \<in> set ds then ds else ds @ [d])"

definition push_shift :: "shift list jsobject \<Rightarrow> shift \<Rightarrow> halt + shift list jsobject" where
  \<comment> \<open>lines 156 and 157 on an object that line 155 created. An inherited value under the
      date is truthy and is kept by \<^verbatim>\<open>||\<close>; it has no \<^verbatim>\<open>push\<close>.\<close>
  "push_shift shiftsByDate s =
     (case get_prop shiftsByDate (date s) of
        Own list \<Rightarrow> Inr (set_prop shiftsByDate (date s) (list @ [s]))
      | Missing \<Rightarrow> Inr (set_prop shiftsByDate (date s) [s])
      | Inherited \<Rightarrow> Inl TypeError)"

definition builtin_write :: "jsstring \<Rightarrow> jsstring \<Rightarrow> halt option" where
  \<comment> \<open>lines 156 and 157 when \<^verbatim>\<open>byEmployee[empName]\<close> is the built-in inherited under
      \<open>k\<close>. Every built-in inherits the names of \<open>object_prototype_names\<close> with values
      that have no \<^verbatim>\<open>push\<close>. Under \<^verbatim>\<open>__proto__\<close> the built-in is
      \<^verbatim>\<open>Object.prototype\<close>. Otherwise it is a function; no property of a built-in
      function has a hyphen in its name, so a date with a hyphen gets a new array there.\<close>
  "builtin_write k d =
     (if inherited d then Some TypeError
      else if k = js ''__proto__'' then Some Untracked
      else if 0x2D \<in> set d then None
      else Some Untracked)"

definition add_shift :: "aggregation \<Rightarrow> shift \<Rightarrow> halt + aggregation" where
  \<comment> \<open>the body of the \<^verbatim>\<open>forEach\<close> of line 153\<close>
  "add_shift a s =
     (case get_prop (byEmployee a) (empName s) of
        Own shiftsByDate \<Rightarrow>
          (case push_shift shiftsByDate s of
             Inl e \<Rightarrow> Inl e
           | Inr shiftsByDate' \<Rightarrow>
               Inr \<lparr>byEmployee = set_prop (byEmployee a) (empName s) shiftsByDate',
                    datesSet = set_add (datesSet a) (date s)\<rparr>)
      | Missing \<Rightarrow>
          (case push_shift [] s of
             Inl e \<Rightarrow> Inl e
           | Inr shiftsByDate' \<Rightarrow>
               Inr \<lparr>byEmployee = set_prop (byEmployee a) (empName s) shiftsByDate',
                    datesSet = set_add (datesSet a) (date s)\<rparr>)
      | Inherited \<Rightarrow>
          (case builtin_write (empName s) (date s) of
             Some e \<Rightarrow> Inl e
           | None \<Rightarrow> Inr (a\<lparr>datesSet := set_add (datesSet a) (date s)\<rparr>)))"

fun add_shifts :: "aggregation \<Rightarrow> shift list \<Rightarrow> halt + aggregation" where
  "add_shifts a [] = Inr a"
| "add_shifts a (s # shifts) =
     (case add_shift a s of Inl e \<Rightarrow> Inl e | Inr a' \<Rightarrow> add_shifts a' shifts)"

definition aggregate :: "shift list \<Rightarrow> halt + aggregation" where
  "aggregate shifts = add_shifts \<lparr>byEmployee = [], datesSet = []\<rparr> shifts"

definition dates :: "aggregation \<Rightarrow> jsstring list" where
  \<comment> \<open>line 161\<close>
  "dates a = sort (datesSet a)"



definition bucket_total :: "aggregation \<Rightarrow> nat" where
  \<comment> \<open>the sum of the lengths of all arrays held by \<^verbatim>\<open>byEmployee\<close>\<close>
  "bucket_total a =
     sum_list (map (\<lambda>e. sum_list (map (\<lambda>b. length (snd b)) (snd e))) (byEmployee a))"

section \<open>The table of \<^verbatim>\<open>renderWeekTable\<close> (lines 141 to 148 and 163 to 202)\<close>

datatype content =
    Blank
  | Message jsstring
  | Table (header: "jsstring list") (rows: "(jsstring \<times> jsstring list list) list")

definition span_text :: "shift \<Rightarrow> jsstring" where
  \<comment> \<open>line 193\<close>
  "span_text s = start_time s @ js '' - '' @ end_time s @ js '' ('' @ position s @ js '')''"

fun collect :: "(halt + 'a) list \<Rightarrow> halt + 'a list" where
  \<comment> \<open>a \<^verbatim>\<open>forEach\<close> whose body may throw: the first exception ends it\<close>
  "collect [] = Inr []"
| "collect (x # xs) =
     (case x of
        Inl e \<Rightarrow> Inl e
      | Inr v \<Rightarrow> (case collect xs of Inl e \<Rightarrow> Inl e | Inr vs \<Rightarrow> Inr (v # vs)))"

definition cell :: "shift list jsobject \<Rightarrow> jsstring \<Rightarrow> halt + jsstring list" where
  \<comment> \<open>lines 188 to 196: the texts of the spans of one cell. An inherited value under the
      date would be truthy and have no \<^verbatim>\<open>forEach\<close>.\<close>
  "cell shiftsByDate d =
     (case get_prop shiftsByDate d of
        Own list \<Rightarrow> Inr (map span_text list)
      | Missing \<Rightarrow> Inr []
      | Inherited \<Rightarrow> Inl TypeError)"

definition row :: "jsstring list \<Rightarrow> jsstring \<times> shift list jsobject
    \<Rightarrow> halt + (jsstring \<times> jsstring list list)" where
  \<comment> \<open>lines 182 to 199: the employee cell and one cell for each date\<close>
  "row ds e =
     (case collect (map (cell (snd e)) ds) of
        Inl x \<Rightarrow> Inl x
      | Inr cells \<Rightarrow> Inr (fst e, cells))"

definition renderWeekTable :: "shift list \<Rightarrow> halt + content" where
  \<comment> \<open>the content of the container when the function returns\<close>
  "renderWeekTable shifts =
     (if shifts = [] then Inr (Message NO_SHIFTS)
      else case aggregate shifts of
        Inl e \<Rightarrow> Inl e
      | Inr a \<Rightarrow>
          (case collect (map (row (dates a)) (object_entries (byEmployee a))) of
             Inl e \<Rightarrow> Inl e
           | Inr rs \<Rightarrow> Inr (Table (EMPLOYEE_HEADER # dates a) rs)))"

definition view_columns :: "content \<Rightarrow> jsstring list" where
  \<comment> \<open>the date columns on display\<close>
  "view_columns c = (case c of Table h rs \<Rightarrow> tl h | _ \<Rightarrow> [])"

definition view_rows :: "content \<Rightarrow> (jsstring \<times> jsstring list list) list" where
  "view_rows c = (case c of Table h rs \<Rightarrow> rs | _ \<Rightarrow> [])"

definition first_appearance :: "jsstring list \<Rightarrow> jsstring list" where
  \<comment> \<open>the distinct elements of a list in the order of their first appearance\<close>
  "first_appearance ks = foldl set_add [] ks"


section \<open>The page: forms, requests, replies and notifications\<close>

text \<open>
  The page state holds what the handlers of \<^verbatim>\<open>app.js\<close> read and write: the values of
  the input fields, the list and the select of employees, the schedule container, the
  texts shown by \<^verbatim>\<open>alert\<close> and the requests handed to \<^verbatim>\<open>fetch\<close>, oldest first.
  \<^verbatim>\<open>form.reset()\<close> puts the default values of the markup back into the fields of the
  form; the markup is not part of \<^verbatim>\<open>app.js\<close>, so the defaults are fields of the state,
  and the fields of a form are taken to be those whose id starts with its name.
\<close>

record employee_fields =
  emp_name :: jsstring
  emp_role :: jsstring
  emp_phone :: jsstring
  emp_rate :: jsstring

record shift_fields =
  shift_date :: jsstring
  shift_start :: jsstring
  shift_end :: jsstring
  shift_position :: jsstring
  shift_employee :: jsstring

record employee_record =
  e_id :: jsstring  \<comment> \<open>the text of \<^verbatim>\<open>emp.id\<close>\<close>
  e_full_name :: jsstring
  e_role :: jsstring

datatype request =
    ListEmployees  \<comment> \<open>\<^verbatim>\<open>GET /api/employees/\<close>\<close>
  | CreateEmployee jsstring jsstring "jsstring option" "jsstring option" bool
      \<comment> \<open>\<^verbatim>\<open>POST /api/employees/\<close> with \<^verbatim>\<open>full_name\<close>, \<^verbatim>\<open>role\<close>, \<^verbatim>\<open>phone\<close>,
          \<^verbatim>\<open>hourly_rate\<close> (the text given to \<^verbatim>\<open>Number\<close>), \<^verbatim>\<open>is_active\<close>\<close>
  | CreateShift jsstring jsstring jsstring jsstring "jsstring option"
      \<comment> \<open>\<^verbatim>\<open>POST /api/shifts/\<close> with \<^verbatim>\<open>date\<close>, \<^verbatim>\<open>start_time\<close>, \<^verbatim>\<open>end_time\<close>,
          \<^verbatim>\<open>position\<close>, \<^verbatim>\<open>employee_id\<close> (the text given to \<^verbatim>\<open>Number\<close>)\<close>
  | WeekSchedule jsstring  \<comment> \<open>\<^verbatim>\<open>GET /api/schedule/week/?any_date_in_week=\<close> and the date\<close>

text \<open>
  What a request comes back with. \<open>Failed m\<close>: the promise of \<^verbatim>\<open>fetch\<close> is rejected
  with an error of message \<open>m\<close>. \<open>Reply ok b\<close>: a response with \<^verbatim>\<open>res.ok\<close> equal to
  \<open>ok\<close> and body \<open>b\<close>, for which \<^verbatim>\<open>res.json()\<close> gives the data or is rejected with a
  message.
\<close>

datatype 'a body = Unparsable jsstring | Json 'a

datatype 'a reply = Failed jsstring | Reply bool "'a body"

datatype alert =
    Alert jsstring
  | AlertTypeError  \<comment> \<open>the message of a \<open>TypeError\<close>, worded by the engine\<close>

record page =
  employee_form :: employee_fields
  employee_form_default :: employee_fields
  shift_form :: shift_fields
  shift_form_default :: shift_fields
  week_date :: jsstring
  employee_list :: "jsstring list"
  employee_options :: "(jsstring \<times> jsstring) list"
  container :: content
  alerts :: "alert list"
  requests :: "request list"

definition show_alert :: "alert \<Rightarrow> page \<Rightarrow> page" where
  "show_alert m p = p\<lparr>alerts := alerts p @ [m]\<rparr>"

definition send :: "request \<Rightarrow> page \<Rightarrow> page" where
  "send r p = p\<lparr>requests := requests p @ [r]\<rparr>"

definition EMPLOYEES_NOT_LOADED :: jsstring where
  \<comment> \<open>line 18: "\c{C}al{\i}\c{s}an listesi al{\i}namad{\i}"\<close>
  "EMPLOYEES_NOT_LOADED = EMPLOYEE_HEADER @ js '' listesi al'' @ [0x131] @ js ''namad'' @ [0x131]"

definition EMPLOYEE_REQUIRED :: jsstring where
  \<comment> \<open>line 60\<close>
  "EMPLOYEE_REQUIRED = js ''Ad soyad ve rol zorunludur.''"

definition EMPLOYEE_NOT_ADDED :: jsstring where
  \<comment> \<open>line 69: "\c{C}al{\i}\c{s}an eklenemedi"\<close>
  "EMPLOYEE_NOT_ADDED = EMPLOYEE_HEADER @ js '' eklenemedi''"

definition SHIFT_REQUIRED :: jsstring where
  \<comment> \<open>line 89\<close>
  "SHIFT_REQUIRED = js ''Tarih, saatler ve pozisyon zorunludur.''"

definition SHIFT_NOT_SAVED :: jsstring where
  \<comment> \<open>line 107\<close>
  "SHIFT_NOT_SAVED = js ''Vardiya kaydedilemedi''"

definition WEEK_NOT_LOADED :: jsstring where
  \<comment> \<open>line 133: "Haftal{\i}k program al{\i}namad{\i}"\<close>
  "WEEK_NOT_LOADED = js ''Haftal'' @ [0x131] @ js ''k program al'' @ [0x131] @ js ''namad''
     @ [0x131]"

definition NOT_SELECTED :: jsstring where
  \<comment> \<open>line 39: "- Se\c{c}ilmedi -"\<close>
  "NOT_SELECTED = js ''- Se'' @ [0xE7] @ js ''ilmedi -''"

definition white_space :: "16 word \<Rightarrow> bool" where
  \<comment> \<open>the white space and line terminator code units that \<^verbatim>\<open>trim\<close> removes\<close>
  "white_space c =
     (c \<in> set [0x9, 0xA, 0xB, 0xC, 0xD, 0x20, 0xA0, 0x1680, 0x2028, 0x2029, 0x202F, 0x205F,
                0x3000, 0xFEFF]
      \<or> (0x2000 \<le> c \<and> c \<le> 0x200A))"

definition trim :: "jsstring \<Rightarrow> jsstring" where
  "trim t = rev (dropWhile white_space (rev (dropWhile white_space t)))"

subsection \<open>\<^verbatim>\<open>loadEmployees\<close> (lines 15 to 46)\<close>

definition renderEmployeeList :: "employee_record list \<Rightarrow> page \<Rightarrow> page" where
  "renderEmployeeList employees p =
     p\<lparr>employee_list := map (\<lambda>emp. e_full_name emp @ [0x20, 0x2013, 0x20] @ e_role emp) employees\<rparr>"

definition fillEmployeeSelect :: "employee_record list \<Rightarrow> page \<Rightarrow> page" where
  \<comment> \<open>the rebuilt select shows its first option, whose value is empty\<close>
  "fillEmployeeSelect employees p =
     p\<lparr>employee_options :=
         ([], NOT_SELECTED)
         # map (\<lambda>emp. (e_id emp, e_full_name emp @ js '' ('' @ e_role emp @ js '')'')) employees,
       shift_form := (shift_form p)\<lparr>shift_employee := []\<rparr>\<rparr>"

definition loadEmployees :: "employee_record list reply \<Rightarrow> page \<Rightarrow> page" where
  "loadEmployees r p =
     (let p1 = send ListEmployees p in
      case r of
        Failed m \<Rightarrow> show_alert (Alert m) p1
      | Reply ok b \<Rightarrow>
          if \<not> ok then show_alert (Alert EMPLOYEES_NOT_LOADED) p1
          else (case b of
                  Unparsable m \<Rightarrow> show_alert (Alert m) p1
                | Json data \<Rightarrow> fillEmployeeSelect data (renderEmployeeList data p1)))"

subsection \<open>The submit handler of the employee form (lines 50 to 75)\<close>

text \<open>
  \<open>created\<close> is what the \<^verbatim>\<open>POST\<close> comes back with, \<open>listed\<close> what the request of
  \<^verbatim>\<open>loadEmployees\<close> comes back with, should the handler get that far. The body of the
  reply to a \<^verbatim>\<open>POST\<close> is the detail the server sends with it.
\<close>

definition submit_employee :: "jsstring reply \<Rightarrow> employee_record list reply \<Rightarrow> page \<Rightarrow> page" where
  "submit_employee created listed p =
     (let f = employee_form p;
          full_name = trim (emp_name f);
          role = trim (emp_role f);
          phone = (if trim (emp_phone f) = [] then None else Some (trim (emp_phone f)));
          hourly_rate = (if emp_rate f = [] then None else Some (emp_rate f))
      in if full_name = [] \<or> role = [] then show_alert (Alert EMPLOYEE_REQUIRED) p
         else
           let p1 = send (CreateEmployee full_name role phone hourly_rate True) p in
           case created of
             Failed m \<Rightarrow> show_alert (Alert m) p1
           | Reply ok b \<Rightarrow>
               if \<not> ok then show_alert (Alert EMPLOYEE_NOT_ADDED) p1
               else loadEmployees listed (p1\<lparr>employee_form := employee_form_default p1\<rparr>))"

subsection \<open>\<^verbatim>\<open>loadWeekSchedule\<close> (lines 130 to 139)\<close>

text \<open>
  The function is suspended twice: at the \<^verbatim>\<open>await\<close> of line 132 until the promise of
  \<^verbatim>\<open>fetch\<close> is settled, and at the \<^verbatim>\<open>await\<close> of line 134 until the promise of
  \<^verbatim>\<open>res.json()\<close> is settled. Each of the three stretches runs without interruption.
  A result \<open>None\<close> stands for a run of \<^verbatim>\<open>renderWeekTable\<close> that the model does not
  follow (\<open>Untracked\<close>).
\<close>

definition week_requested :: "jsstring \<Rightarrow> page \<Rightarrow> page" where
  \<comment> \<open>line 132, up to the \<^verbatim>\<open>await\<close>\<close>
  "week_requested anyDate p = send (WeekSchedule anyDate) p"

definition week_fetched :: "shift list reply \<Rightarrow> page \<Rightarrow> page \<times> shift list body option" where
  \<comment> \<open>from the first \<^verbatim>\<open>await\<close> to the second: the body still to be read, if any\<close>
  "week_fetched r p =
     (case r of
        Failed m \<Rightarrow> (show_alert (Alert m) p, None)
      | Reply ok b \<Rightarrow> if \<not> ok then (show_alert (Alert WEEK_NOT_LOADED) p, None) else (p, Some b))"

definition week_parsed :: "shift list body \<Rightarrow> page \<Rightarrow> page option" where
  \<comment> \<open>from the second \<^verbatim>\<open>await\<close> to the end; line 143 has emptied the container when
      \<^verbatim>\<open>renderWeekTable\<close> throws\<close>
  "week_parsed b p =
     (case b of
        Unparsable m \<Rightarrow> Some (show_alert (Alert m) p)
      | Json shifts \<Rightarrow>
          (case renderWeekTable shifts of
             Inr c \<Rightarrow> Some (p\<lparr>container := c\<rparr>)
           | Inl TypeError \<Rightarrow> Some (show_alert AlertTypeError (p\<lparr>container := Blank\<rparr>))
           | Inl Untracked \<Rightarrow> None))"

definition loadWeekSchedule :: "jsstring \<Rightarrow> shift list reply \<Rightarrow> page \<Rightarrow> page option" where
  \<comment> \<open>one call awaited to its end, nothing else running in between\<close>
  "loadWeekSchedule anyDate r p =
     (case week_fetched r (week_requested anyDate p) of
        (p', None) \<Rightarrow> Some p'
      | (p', Some b) \<Rightarrow> week_parsed b p')"

subsection \<open>The submit handler of the shift form (lines 80 to 115)\<close>

definition submit_shift :: "jsstring reply \<Rightarrow> shift list reply \<Rightarrow> page \<Rightarrow> page option" where
  "submit_shift created week p =
     (let f = shift_form p;
          dateVal = shift_date f;
          start = shift_start f;
          end = shift_end f;
          position = trim (shift_position f);
          empId = shift_employee f
      in if dateVal = [] \<or> start = [] \<or> end = [] \<or> position = []
         then Some (show_alert (Alert SHIFT_REQUIRED) p)
         else
           let p1 = send (CreateShift dateVal start end position
                            (if empId = [] then None else Some empId)) p in
           case created of
             Failed m \<Rightarrow> Some (show_alert (Alert m) p1)
           | Reply ok b \<Rightarrow>
               if \<not> ok then Some (show_alert (Alert SHIFT_NOT_SAVED) p1)
               else
                 let p2 = p1\<lparr>shift_form := shift_form_default p1\<rparr>;
                     weekDate = (if week_date p2 = [] then dateVal else week_date p2)
                 in loadWeekSchedule weekDate week (p2\<lparr>week_date := weekDate\<rparr>))"

subsection \<open>Calls of \<^verbatim>\<open>loadWeekSchedule\<close> in flight together\<close>

text \<open>
  JavaScript runs one stretch of code at a time. A session is the page and, for each call
  of \<^verbatim>\<open>loadWeekSchedule\<close> made so far (numbered from 0 in the order of the calls), the
  point where it is suspended. An event is a new call or the settling of the promise that
  a call waits for; an event for a call that does not wait for it does not happen and
  changes nothing.
\<close>

datatype call = AwaitFetch | AwaitJson "shift list body" | Returned

record session =
  page :: page
  calls :: "call list"





section \<open>Example inputs\<close>

text \<open>
  The two shifts of the example of the specification, further shifts for the cases of
  line 154 and line 155, the tables that \<^verbatim>\<open>renderWeekTable\<close> builds from them, and a
  page with both forms filled in.
\<close>

definition ada_shift :: shift where
  "ada_shift = \<lparr>date = js ''2024-01-02'', start_time = js ''09:00'', end_time = js ''17:00'',
     position = js ''Cashier'', employee = Embedded (Some (js ''Ada''))\<rparr>"



definition seven_shift :: shift where
  "seven_shift = \<lparr>date = js ''2024-01-03'', start_time = js ''10:00'', end_time = js ''14:00'',
     position = js ''Stock'', employee = Embedded (Some (js ''7''))\<rparr>"

definition seven_table :: content where
  "seven_table =
     Table [EMPLOYEE_HEADER, js ''2024-01-02'', js ''2024-01-03'']
       [(js ''7'', [[], [js ''10:00 - 14:00 (Stock)'']]),
        (js ''Ada'', [[js ''09:00 - 17:00 (Cashier)''], []])]"

definition constructor_shift :: shift where
  "constructor_shift = \<lparr>date = js ''2024-01-02'', start_time = js ''09:00'',
     end_time = js ''17:00'', position = js ''Cashier'',
     employee = Embedded (Some (js ''constructor''))\<rparr>"






definition ada_table :: content where
  "ada_table =
     Table [EMPLOYEE_HEADER, js ''2024-01-01'', js ''2024-01-02'']
       [(js ''Ada'', [[], [js ''09:00 - 17:00 (Cashier)'']]),
        (OPEN_SHIFT, [[js ''08:00 - 12:00 (Stock)''], []])]"

definition filled_page :: page where
  "filled_page =
     \<lparr>employee_form = \<lparr>emp_name = js ''Ada Lovelace'', emp_role = js ''Cashier'',
                        emp_phone = [], emp_rate = js ''12.5''\<rparr>,
      employee_form_default = \<lparr>emp_name = [], emp_role = [], emp_phone = [], emp_rate = []\<rparr>,
      shift_form = \<lparr>shift_date = js ''2024-01-03'', shift_start = js ''09:00'',
                     shift_end = js ''17:00'', shift_position = js ''Cashier'',
                     shift_employee = js ''1''\<rparr>,
      shift_form_default = \<lparr>shift_date = [], shift_start = [], shift_end = [],
                             shift_position = [], shift_employee = []\<rparr>,
      week_date = js ''2024-01-01'',
      employee_list = [],
      employee_options = [([], NOT_SELECTED)],
      container = ada_table,
      alerts = [],
      requests = []\<rparr>"

definition nameless_page :: page where
  "nameless_page =
     filled_page\<lparr>employee_form := (employee_form filled_page)\<lparr>emp_name := js ''  ''\<rparr>\<rparr>"

definition DETAIL :: jsstring where
  "DETAIL = js ''role: not a valid choice''"




section \<open>Properties of the objects and of the grouping\<close>


lemma keys_set_prop_old: "k \<in> set (map fst obj) \<Longrightarrow> map fst (set_prop obj k v) = map fst obj"
  by (induction obj) force+

lemma keys_set_prop_new: "k \<notin> set (map fst obj) \<Longrightarrow> map fst (set_prop obj k v) = map fst obj @ [k]"
  by (induction obj) auto

lemma keys_set_prop: "map fst (set_prop obj k v) = set_add (map fst obj) k"
  using keys_set_prop_old keys_set_prop_new unfolding set_add_def by metis

lemma map_of_None_keys: "map_of obj k = None \<longleftrightarrow> k \<notin> fst ` set obj"
  by (simp add: map_of_eq_None_iff)

lemma map_of_Some_keys: "map_of obj k = Some v \<Longrightarrow> k \<in> fst ` set obj"
  by (metis map_of_None_keys option.distinct(1))


lemma add_shift_cases:
  assumes "add_shift a s = Inr a'"
  obtains
    (own) byDate byDate' where "map_of (byEmployee a) (empName s) = Some byDate"
      "push_shift byDate s = Inr byDate'"
      "a' = \<lparr>byEmployee = set_prop (byEmployee a) (empName s) byDate',
             datesSet = set_add (datesSet a) (date s)\<rparr>"
  | (new) byDate' where "map_of (byEmployee a) (empName s) = None" "\<not> inherited (empName s)"
      "push_shift [] s = Inr byDate'"
      "a' = \<lparr>byEmployee = set_prop (byEmployee a) (empName s) byDate',
             datesSet = set_add (datesSet a) (date s)\<rparr>"
  | (builtin) "map_of (byEmployee a) (empName s) = None" "inherited (empName s)"
      "builtin_write (empName s) (date s) = None"
      "a' = a\<lparr>datesSet := set_add (datesSet a) (date s)\<rparr>"
proof (cases "map_of (byEmployee a) (empName s)")
  case None
  show ?thesis
  proof (cases "inherited (empName s)")
    case True
    with None assms builtin show ?thesis
      unfolding add_shift_def get_prop_def by (simp split: option.splits)
  next
    case False
    with None assms new show ?thesis
      unfolding add_shift_def get_prop_def by (simp split: sum.splits)
  qed
next
  case (Some byDate)
  with assms own show ?thesis
    unfolding add_shift_def get_prop_def by (simp split: sum.splits)
qed


lemma add_shift_dates:
  assumes "add_shift a s = Inr a'"
  shows "datesSet a' = set_add (datesSet a) (date s)"
  using assms by (cases rule: add_shift_cases) simp_all

lemma add_shift_keys:
  assumes "add_shift a s = Inr a'"
  shows "map fst (byEmployee a') =
           (if inherited (empName s) \<and> empName s \<notin> fst ` set (byEmployee a)
            then map fst (byEmployee a)
            else set_add (map fst (byEmployee a)) (empName s))"
  using assms
proof (cases rule: add_shift_cases)
  case (own byDate byDate')
  from own(1) have "empName s \<in> fst ` set (byEmployee a)" by (rule map_of_Some_keys)
  with own show ?thesis by (simp add: keys_set_prop)
next
  case (new byDate')
  then show ?thesis by (simp add: keys_set_prop)
next
  case builtin
  then show ?thesis by (simp add: map_of_None_keys)
qed



lemma set_foldl_set_add: "set (foldl set_add ds xs) = set ds \<union> set xs"
  by (induction xs arbitrary: ds) (auto simp: set_add_def)


lemma add_shifts_dates:
  "add_shifts a shifts = Inr a' \<Longrightarrow> datesSet a' = foldl set_add (datesSet a) (map date shifts)"
proof (induction shifts arbitrary: a)
  case Nil
  then show ?case by simp
next
  case (Cons s shifts)
  then obtain a1 where a1: "add_shift a s = Inr a1" "add_shifts a1 shifts = Inr a'"
    by (auto split: sum.splits)
  from Cons.IH [OF a1(2)] add_shift_dates [OF a1(1)] show ?case by simp
qed

lemma add_shifts_keys:
  "\<forall>s \<in> set shifts. \<not> inherited (empName s) \<Longrightarrow> add_shifts a shifts = Inr a' \<Longrightarrow>
     map fst (byEmployee a') = foldl set_add (map fst (byEmployee a)) (map empName shifts)"
proof (induction shifts arbitrary: a)
  case Nil
  then show ?case by simp
next
  case (Cons s shifts)
  then obtain a1 where a1: "add_shift a s = Inr a1" "add_shifts a1 shifts = Inr a'"
    by (auto split: sum.splits)
  from Cons.prems(1) have "\<not> inherited (empName s)" "\<forall>s \<in> set shifts. \<not> inherited (empName s)"
    by simp_all
  with Cons.IH [OF _ a1(2)] add_shift_keys [OF a1(1)] show ?case by simp
qed




lemma map_fst_insort_key:
  "map g (insort_key (\<lambda>e. f (g e)) x xs) = insort_key f (g x) (map g xs)"
  by (induction xs) auto

lemma map_fst_sort_key: "map g (sort_key (\<lambda>e. f (g e)) xs) = sort_key f (map g xs)"
  by (induction xs) (auto simp: map_fst_insort_key)

lemma keys_object_entries:
  "map fst (object_entries obj) =
     sort_key digits_value (filter array_index (map fst obj))
     @ filter (\<lambda>k. \<not> array_index k) (map fst obj)"
  by (simp add: object_entries_def map_fst_sort_key filter_map o_def)

lemma set_object_entries: "set (object_entries obj) = set obj"
  by (auto simp: object_entries_def)


lemma collect_keys:
  "collect (map (row ds) es) = Inr rs \<Longrightarrow> map fst rs = map fst es"
  by (induction es arbitrary: rs) (auto simp: row_def split: sum.splits)

lemma collect_returns:
  "\<forall>x \<in> set xs. \<exists>v. x = Inr v \<Longrightarrow> \<exists>vs. collect xs = Inr vs"
  by (induction xs) auto

lemma cell_returns: "\<not> inherited d \<Longrightarrow> \<exists>c. cell byDate d = Inr c"
  by (simp add: cell_def get_prop_def split: option.splits)

lemma row_returns: "\<forall>d \<in> set ds. \<not> inherited d \<Longrightarrow> \<exists>r. row ds e = Inr r"
proof -
  assume "\<forall>d \<in> set ds. \<not> inherited d"
  then have "\<forall>x \<in> set (map (cell (snd e)) ds). \<exists>v. x = Inr v"
    using cell_returns by auto
  from collect_returns [OF this] show ?thesis by (auto simp: row_def)
qed

lemma push_shift_returns: "\<not> inherited (date s) \<Longrightarrow> \<exists>byDate'. push_shift byDate s = Inr byDate'"
  by (simp add: push_shift_def get_prop_def split: option.splits)

lemma add_shift_returns:
  assumes "\<not> inherited (empName s)" "\<not> inherited (date s)"
  shows "\<exists>a'. add_shift a s = Inr a'"
proof (cases "map_of (byEmployee a) (empName s)")
  case None
  with assms push_shift_returns [OF assms(2), of "[]"] show ?thesis
    by (auto simp: add_shift_def get_prop_def)
next
  case (Some byDate)
  with assms push_shift_returns [OF assms(2), of byDate] show ?thesis
    by (auto simp: add_shift_def get_prop_def)
qed

lemma add_shifts_returns:
  "\<forall>s \<in> set shifts. \<not> inherited (empName s) \<and> \<not> inherited (date s) \<Longrightarrow>
     \<exists>a'. add_shifts a shifts = Inr a'"
proof (induction shifts arbitrary: a)
  case Nil
  then show ?case by simp
next
  case (Cons s shifts)
  then obtain a1 where "add_shift a s = Inr a1"
    using add_shift_returns [of s a] by auto
  with Cons.IH [of a1] Cons.prems show ?case by simp
qed


lemma renderWeekTable_returns:
  assumes "\<forall>s \<in> set shifts. \<not> inherited (empName s) \<and> \<not> inherited (date s)"
  shows "\<exists>c. renderWeekTable shifts = Inr c"
proof (cases "shifts = []")
  case True
  then show ?thesis by (simp add: renderWeekTable_def)
next
  case False
  from add_shifts_returns [OF assms] obtain a where a: "aggregate shifts = Inr a"
    unfolding aggregate_def by blast
  from add_shifts_dates [OF a [unfolded aggregate_def]]
  have "set (dates a) = date ` set shifts"
    by (simp add: dates_def set_foldl_set_add)
  with assms have "\<forall>d \<in> set (dates a). \<not> inherited d" by auto
  then have "\<forall>x \<in> set (map (row (dates a)) (object_entries (byEmployee a))). \<exists>v. x = Inr v"
    using row_returns by auto
  from collect_returns [OF this] a False show ?thesis
    by (auto simp: renderWeekTable_def)
qed

lemma renderWeekTable_rows:
  assumes "renderWeekTable shifts = Inr c"
  obtains (empty) "shifts = []" "c = Message NO_SHIFTS"
  | (table) a rs where "shifts \<noteq> []" "aggregate shifts = Inr a"
      "c = Table (EMPLOYEE_HEADER # dates a) rs"
      "map fst rs = map fst (object_entries (byEmployee a))"
proof (cases "shifts = []")
  case True
  with assms empty show ?thesis by (simp add: renderWeekTable_def)
next
  case False
  with assms obtain a rs where a: "aggregate shifts = Inr a"
    and rs: "collect (map (row (dates a)) (object_entries (byEmployee a))) = Inr rs"
    and c: "c = Table (EMPLOYEE_HEADER # dates a) rs"
    by (auto simp: renderWeekTable_def split: sum.splits)
  from collect_keys [OF rs] False a c table show ?thesis by blast
qed





lemma sum_set_prop_new:
  "map_of obj k = None \<Longrightarrow>
     sum_list (map (\<lambda>e. g (snd e)) (set_prop obj k v))
       = sum_list (map (\<lambda>e. g (snd e)) obj) + (g v :: nat)"
  by (induction obj) (auto split: if_splits)

lemma sum_set_prop_old:
  "map_of obj k = Some v0 \<Longrightarrow>
     sum_list (map (\<lambda>e. g (snd e)) (set_prop obj k v)) + g v0
       = sum_list (map (\<lambda>e. g (snd e)) obj) + (g v :: nat)"
  by (induction obj) (auto split: if_splits)

lemma push_shift_total:
  assumes "push_shift byDate s = Inr byDate'"
  shows "sum_list (map (\<lambda>b. length (snd b)) byDate')
           = sum_list (map (\<lambda>b. length (snd b)) byDate) + 1"
proof (cases "map_of byDate (date s)")
  case None
  with assms have "byDate' = set_prop byDate (date s) [s]"
    by (auto simp: push_shift_def get_prop_def split: if_splits)
  with sum_set_prop_new [OF None, of length "[s]"] show ?thesis by simp
next
  case (Some list)
  with assms have "byDate' = set_prop byDate (date s) (list @ [s])"
    by (auto simp: push_shift_def get_prop_def)
  with sum_set_prop_old [OF Some, of length "list @ [s]"] show ?thesis by simp
qed

lemma add_shift_total:
  assumes "add_shift a s = Inr a'"
  shows "bucket_total a' =
           bucket_total a
           + (if inherited (empName s) \<and> empName s \<notin> fst ` set (byEmployee a) then 0 else 1)"
  using assms
proof (cases rule: add_shift_cases)
  case (own byDate byDate')
  from own(1) have k: "empName s \<in> fst ` set (byEmployee a)" by (rule map_of_Some_keys)
  from sum_set_prop_old [OF own(1), of "\<lambda>v. sum_list (map (\<lambda>b. length (snd b)) v)" byDate']
    push_shift_total [OF own(2)] own(3) k
  show ?thesis by (simp add: bucket_total_def)
next
  case (new byDate')
  from sum_set_prop_new [OF new(1), of "\<lambda>v. sum_list (map (\<lambda>b. length (snd b)) v)" byDate']
    push_shift_total [OF new(3)] new(2,4)
  show ?thesis by (simp add: bucket_total_def)
next
  case builtin
  then show ?thesis by (simp add: bucket_total_def map_of_None_keys)
qed

lemma add_shifts_total:
  "\<forall>s \<in> set shifts. \<not> inherited (empName s) \<Longrightarrow> add_shifts a shifts = Inr a' \<Longrightarrow>
     bucket_total a' = bucket_total a + length shifts"
proof (induction shifts arbitrary: a)
  case Nil
  then show ?case by simp
next
  case (Cons s shifts)
  then obtain a1 where a1: "add_shift a s = Inr a1" "add_shifts a1 shifts = Inr a'"
    by (auto split: sum.splits)
  from Cons.prems(1) have n: "\<not> inherited (empName s)" "\<forall>s \<in> set shifts. \<not> inherited (empName s)"
    by simp_all
  from Cons.IH [OF n(2) a1(2)] add_shift_total [OF a1(1)] n(1) show ?case by simp
qed

lemma every_shift_bucketed_unless_key_inherited:
  "\<forall>s \<in> set shifts. \<not> inherited (empName s) \<Longrightarrow> aggregate shifts = Inr a \<Longrightarrow>
     bucket_total a = length shifts"
  unfolding aggregate_def by (drule (1) add_shifts_total) (simp add: bucket_total_def)



section \<open>The claims about the grouping\<close>

text \<open>
  C1. The claim: every input shift is placed in exactly one (employee key, date) bucket,
  so the lengths of the buckets add up to the length of the input. That holds whenever no
  employee key names a member of \<^verbatim>\<open>Object.prototype\<close>
  (\<open>every_shift_bucketed_unless_key_inherited\<close>). For an employee whose
  \<^verbatim>\<open>full_name\<close> is "constructor", line 155 finds the inherited function, creates no
  row, and lines 156 and 157 store the shift on that function: \<^verbatim>\<open>byEmployee\<close> stays
  empty, the buckets add up to 0 for an input of length 1, and the table has the date
  column and no row.
\<close>

theorem constructor_shift_is_in_no_bucket:
  "aggregate [constructor_shift] = Inr \<lparr>byEmployee = [], datesSet = [js ''2024-01-02'']\<rparr>
   \<and> bucket_total \<lparr>byEmployee = [], datesSet = [js ''2024-01-02'']\<rparr> \<noteq> length [constructor_shift]
   \<and> renderWeekTable [constructor_shift] = Inr (Table [EMPLOYEE_HEADER, js ''2024-01-02''] [])"
  by code_simp



text \<open>
  C3, as the code has it. The claim says that the rows come in the order in which the
  employee keys first appear. The rows come in the order of \<^verbatim>\<open>Object.entries\<close>:
  for every shift list none of whose employee keys names a member of
  \<^verbatim>\<open>Object.prototype\<close>, the keys that are array indices come first, in ascending
  numeric order, and all other keys follow in the order of their first appearance.
\<close>

theorem rows_follow_object_entries_order:
  assumes "renderWeekTable shifts = Inr c"
    and "\<forall>s \<in> set shifts. \<not> inherited (empName s)"
  shows "map fst (view_rows c) =
           sort_key digits_value (filter array_index (first_appearance (map empName shifts)))
           @ filter (\<lambda>k. \<not> array_index k) (first_appearance (map empName shifts))"
  using assms(1)
proof (cases rule: renderWeekTable_rows)
  case empty
  then show ?thesis by (simp add: view_rows_def first_appearance_def)
next
  case (table a rs)
  from add_shifts_keys [OF assms(2) table(2) [unfolded aggregate_def]]
  have "map fst (byEmployee a) = first_appearance (map empName shifts)"
    by (simp add: first_appearance_def)
  with table(3,4) show ?thesis by (simp add: view_rows_def keys_object_entries)
qed

theorem rows_follow_object_entries_order_example:
  "renderWeekTable [ada_shift, seven_shift] = Inr seven_table
   \<and> \<not> inherited (empName ada_shift) \<and> \<not> inherited (empName seven_shift)
   \<and> array_index (js ''7'') \<and> \<not> array_index (js ''Ada'')
   \<and> first_appearance (map empName [ada_shift, seven_shift]) = [js ''Ada'', js ''7'']
   \<and> map fst (view_rows seven_table) = [js ''7'', js ''Ada'']"
proof -
  have h: "renderWeekTable [ada_shift, seven_shift] = Inr seven_table" by code_simp
  have i: "\<forall>s \<in> set [ada_shift, seven_shift]. \<not> inherited (empName s)" by code_simp
  have "sort_key digits_value (filter array_index (first_appearance (map empName [ada_shift, seven_shift])))
           @ filter (\<lambda>k. \<not> array_index k) (first_appearance (map empName [ada_shift, seven_shift]))
        = [js ''7'', js ''Ada'']" by code_simp
  moreover have "array_index (js ''7'')" "\<not> array_index (js ''Ada'')"
    "first_appearance (map empName [ada_shift, seven_shift]) = [js ''Ada'', js ''7'']"
    by code_simp+
  ultimately show ?thesis
    using h i rows_follow_object_entries_order [OF h i] by simp
qed

text \<open>
  C3, as the claim states it, fails: Ada appears before the employee named "7", and the
  row of "7" comes first.
\<close>

theorem numeric_name_row_comes_first:
  "renderWeekTable [ada_shift, seven_shift] = Inr seven_table
   \<and> map fst (view_rows seven_table) \<noteq> first_appearance (map empName [ada_shift, seven_shift])"
  by code_simp





section \<open>The claims about the page\<close>

text \<open>
  C6. An empty shift list is no error: \<^verbatim>\<open>renderWeekTable\<close> shows the text of line 146,
  a view with no row and no column, and \<^verbatim>\<open>loadWeekSchedule\<close> with an empty list as the
  reply changes the container to that text and raises no notification. The grouping of an
  empty list has no row and no date.
\<close>

theorem empty_week_is_a_message:
  "renderWeekTable [] = Inr (Message NO_SHIFTS)
   \<and> view_rows (Message NO_SHIFTS) = [] \<and> view_columns (Message NO_SHIFTS) = []
   \<and> aggregate [] = Inr \<lparr>byEmployee = [], datesSet = []\<rparr>
   \<and> loadWeekSchedule anyDate (Reply True (Json [])) p
       = Some (p\<lparr>container := Message NO_SHIFTS, requests := requests p @ [WeekSchedule anyDate]\<rparr>)"
  by (simp add: renderWeekTable_def view_rows_def view_columns_def loadWeekSchedule_def
      week_fetched_def week_parsed_def week_requested_def send_def aggregate_def)

theorem empty_week_is_a_message_example:
  "loadWeekSchedule (js ''2024-01-01'') (Reply True (Json [])) filled_page
     = Some (filled_page\<lparr>container := Message NO_SHIFTS,
                          requests := [WeekSchedule (js ''2024-01-01'')]\<rparr>)
   \<and> alerts (filled_page\<lparr>container := Message NO_SHIFTS,
                           requests := [WeekSchedule (js ''2024-01-01'')]\<rparr>) = []"
  using empty_week_is_a_message [of "js ''2024-01-01''" filled_page]
  by (simp add: filled_page_def)

text \<open>
  C4, as the code has it. When the request that creates an employee or a shift comes
  back with a status that is not a success, the notification is the fixed message of the
  operation (lines 69 and 107), whatever the body of the response holds: the body is
  never read.
\<close>

theorem rejected_create_shows_the_fixed_message:
  "(trim (emp_name (employee_form p)) \<noteq> [] \<and> trim (emp_role (employee_form p)) \<noteq> [] \<longrightarrow>
      alerts (submit_employee (Reply False b) listed p) = alerts p @ [Alert EMPLOYEE_NOT_ADDED])
   \<and> (shift_date (shift_form p) \<noteq> [] \<and> shift_start (shift_form p) \<noteq> []
        \<and> shift_end (shift_form p) \<noteq> [] \<and> trim (shift_position (shift_form p)) \<noteq> [] \<longrightarrow>
      map_option alerts (submit_shift (Reply False b) week p)
        = Some (alerts p @ [Alert SHIFT_NOT_SAVED]))"
  by (simp add: submit_employee_def submit_shift_def Let_def show_alert_def send_def)

theorem rejected_create_shows_the_fixed_message_example:
  "trim (emp_name (employee_form filled_page)) \<noteq> []
   \<and> trim (emp_role (employee_form filled_page)) \<noteq> []
   \<and> alerts (submit_employee (Reply False (Json DETAIL)) (Failed []) filled_page)
       = [Alert EMPLOYEE_NOT_ADDED]
   \<and> shift_date (shift_form filled_page) \<noteq> [] \<and> shift_start (shift_form filled_page) \<noteq> []
   \<and> shift_end (shift_form filled_page) \<noteq> []
   \<and> trim (shift_position (shift_form filled_page)) \<noteq> []
   \<and> map_option alerts (submit_shift (Reply False (Json DETAIL)) (Failed []) filled_page)
       = Some [Alert SHIFT_NOT_SAVED]"
proof -
  have e: "trim (emp_name (employee_form filled_page)) \<noteq> []"
    "trim (emp_role (employee_form filled_page)) \<noteq> []"
    by code_simp+
  have s: "shift_date (shift_form filled_page) \<noteq> []" "shift_start (shift_form filled_page) \<noteq> []"
    "shift_end (shift_form filled_page) \<noteq> []"
    "trim (shift_position (shift_form filled_page)) \<noteq> []"
    by code_simp+
  have a: "alerts filled_page = []" by (simp add: filled_page_def)
  from rejected_create_shows_the_fixed_message
         [of filled_page "Json DETAIL" "Failed []" "Failed []"] e s a
  show ?thesis by simp
qed

text \<open>
  C4, as the claim states it, fails: a response that is not a success and carries a
  validation detail is not answered with that detail.
\<close>

theorem validation_detail_is_not_shown:
  "alerts (submit_employee (Reply False (Json DETAIL)) (Failed []) filled_page)
     \<noteq> alerts filled_page @ [Alert DETAIL]
   \<and> map_option alerts (submit_shift (Reply False (Json DETAIL)) (Failed []) filled_page)
     \<noteq> Some (alerts filled_page @ [Alert DETAIL])"
  by code_simp

text \<open>
  C7. An employee form whose name or role is empty after trimming sends no request:
  the handler shows the message of line 60 and changes nothing else.
\<close>

theorem incomplete_employee_is_not_sent:
  assumes "trim (emp_name (employee_form p)) = [] \<or> trim (emp_role (employee_form p)) = []"
  shows "submit_employee created listed p = p\<lparr>alerts := alerts p @ [Alert EMPLOYEE_REQUIRED]\<rparr>
         \<and> requests (submit_employee created listed p) = requests p"
  using assms by (auto simp: submit_employee_def Let_def show_alert_def)

theorem incomplete_employee_is_not_sent_example:
  "trim (emp_name (employee_form nameless_page)) = []
   \<and> submit_employee (Reply True (Json [])) (Reply True (Json [])) nameless_page
       = nameless_page\<lparr>alerts := [Alert EMPLOYEE_REQUIRED]\<rparr>
   \<and> requests (submit_employee (Reply True (Json [])) (Reply True (Json [])) nameless_page) = []"
proof -
  have h: "trim (emp_name (employee_form nameless_page)) = []" by code_simp
  then have "trim (emp_name (employee_form nameless_page)) = []
      \<or> trim (emp_role (employee_form nameless_page)) = []" by simp
  from incomplete_employee_is_not_sent [OF this, of "Reply True (Json [])" "Reply True (Json [])"] h
  show ?thesis by (simp add: nameless_page_def filled_page_def)
qed

text \<open>
  C8. When the request that creates a shift fails, by a rejected \<^verbatim>\<open>fetch\<close> or by a
  status that is not a success, the container and the fields of the shift form stay as
  they were; one notification is added, and nothing but the notifications and the log of
  requests differs from the page before.
\<close>

theorem failed_shift_submission_changes_nothing_else:
  assumes "created = Failed m \<or> created = Reply False b"
  shows "\<exists>p' msg. submit_shift created week p = Some p'
           \<and> container p' = container p \<and> shift_form p' = shift_form p
           \<and> alerts p' = alerts p @ [Alert msg]
           \<and> p'\<lparr>alerts := alerts p, requests := requests p\<rparr> = p"
  using assms by (auto simp: submit_shift_def Let_def show_alert_def send_def)

theorem failed_shift_submission_changes_nothing_else_example:
  "(Reply False (Json DETAIL) = Failed [] \<or> Reply False (Json DETAIL) = Reply False (Json DETAIL))
   \<and> (\<exists>p' msg. submit_shift (Reply False (Json DETAIL)) (Failed []) filled_page = Some p'
         \<and> container p' = ada_table
         \<and> shift_form p' = shift_form filled_page
         \<and> alerts p' = [Alert msg]
         \<and> p'\<lparr>alerts := alerts filled_page, requests := requests filled_page\<rparr> = filled_page)"
proof -
  have h: "Reply False (Json DETAIL) = Failed [] \<or> Reply False (Json DETAIL) = Reply False (Json DETAIL)"
    by simp
  have c: "container filled_page = ada_table" "alerts filled_page = []"
    by (simp_all add: filled_page_def)
  from failed_shift_submission_changes_nothing_else [OF h, of "Failed []" filled_page] c h
  show ?thesis by simp
qed



end
